theory Spec2Isabelle
  imports Complex_Main
begin

section \<open>Python values, exceptions and keyword dictionaries\<close>

text \<open>
  The module \<^verbatim>\<open>vis/seaborn.py\<close> defines \<^verbatim>\<open>contour_plot\<close> and its helper
  \<^verbatim>\<open>_contour_plot\<close>. Both are embedded here as functions that thread the
  state of the plotting session and return either the exception raised or
  the value returned, together with the state reached at that moment.

  Values that travel through the keyword dictionary are Python objects. The
  code inspects only whether such a value is \<^verbatim>\<open>None\<close> and whether it is a
  string; every other object (a colormap, an RGBA tuple) is an opaque handle.
\<close>

datatype pyval =
    PNone
  | PStr string
  | PInt int
  | PFloat real
  | PList "pyval list"
  | PObj nat

text \<open>
  \<open>NameError\<close> is the failed lookup of a global name, \<open>UnboundLocalError\<close>
  the read of a local variable that no executed statement has assigned,
  \<open>IndexError\<close> an index past the end of a list, \<open>AttributeError\<close> a missing
  method, and \<open>Raised\<close> any exception that comes out of numpy, matplotlib or
  the palette helpers.
\<close>

datatype error =
    NameError string
  | UnboundLocalError string
  | IndexError
  | AttributeError string
  | Raised string

type_synonym kwargs = "string \<rightharpoonup> pyval"

text \<open>\<^verbatim>\<open>kwargs.pop(k, d)\<close>: the value and the dictionary without the key.\<close>

definition dict_pop :: "kwargs \<Rightarrow> string \<Rightarrow> pyval \<Rightarrow> pyval \<times> kwargs" where
  "dict_pop kw k d = (case kw k of None \<Rightarrow> (d, kw) | Some v \<Rightarrow> (v, kw(k := None)))"

text \<open>\<^verbatim>\<open>s.endswith(suf)\<close>.\<close>

definition endswith :: "string \<Rightarrow> string \<Rightarrow> bool" where
  "endswith s suf \<longleftrightarrow> length suf \<le> length s \<and> drop (length s - length suf) s = suf"

text \<open>
  \<^verbatim>\<open>s.replace(old, new)\<close> for a non-empty \<open>old\<close>: every non-overlapping
  occurrence, scanning from the left. (The code calls it with \<^verbatim>\<open>"_d"\<close> only.)
\<close>

function str_replace :: "string \<Rightarrow> string \<Rightarrow> string \<Rightarrow> string" where
  "str_replace old new [] = []"
| "str_replace old new (c # cs) =
     (if old \<noteq> [] \<and> take (length old) (c # cs) = old
      then new @ str_replace old new (drop (length old) (c # cs))
      else c # str_replace old new cs)"
  by pat_completeness auto
termination
  by (relation "measure (\<lambda>(old, new, s). length s)") auto

section \<open>The module's global names\<close>

text \<open>
  A bare name inside a function body is looked up in the globals of the
  defining module. Lines 1 to 6 of the file bind \<^verbatim>\<open>plt\<close>, \<^verbatim>\<open>sns\<close>, \<^verbatim>\<open>mpl\<close>,
  \<^verbatim>\<open>np\<close> and \<^verbatim>\<open>string_types\<close>; the two \<^verbatim>\<open>def\<close> statements bind the two
  functions. Nothing else is bound: the palette helpers are reached neither
  through \<^verbatim>\<open>sns.\<close> nor through a \<^verbatim>\<open>from ... import\<close>.
\<close>

definition module_globals :: "string list" where
  "module_globals =
     [''plt'', ''sns'', ''mpl'', ''np'', ''string_types'', ''contour_plot'', ''_contour_plot'']"

text \<open>
  A call through a global name: the name is looked up before anything else
  of the call is evaluated, and an unbound name raises \<open>NameError\<close>.
\<close>

definition global_call :: "string \<Rightarrow> error + 'a \<Rightarrow> error + 'a" where
  "global_call name r = (if name \<in> set module_globals then r else Inl (NameError name))"

section \<open>Input data\<close>

text \<open>
  The inputs are Python lists, numpy arrays or labelled sequences such as a
  pandas \<^verbatim>\<open>Series\<close>, which alone carries a \<^verbatim>\<open>name\<close> attribute. The elements
  are kept as they are (a row of a two-dimensional grid is a \<open>PList\<close>).
\<close>

datatype arraylike =
    PyList "pyval list"
  | NdArray "pyval list"
  | Series pyval "pyval list"

fun is_list :: "arraylike \<Rightarrow> bool" where
  "is_list (PyList xs) = True"
| "is_list a = False"

fun items :: "arraylike \<Rightarrow> pyval list" where
  "items (PyList xs) = xs"
| "items (NdArray xs) = xs"
| "items (Series n xs) = xs"

definition py_len :: "arraylike \<Rightarrow> nat" where
  "py_len a = length (items a)"

text \<open>\<^verbatim>\<open>hasattr(a, "name")\<close> and \<^verbatim>\<open>a.name\<close> in one: the attribute, if there is one.\<close>

fun name_attr :: "arraylike \<Rightarrow> pyval option" where
  "name_attr (Series n xs) = Some n"
| "name_attr a = None"

section \<open>The plotting surface\<close>

datatype kind = Line | FilledArea

record artist =
  a_kind :: kind
  a_xdata :: "pyval list"
  a_ydata :: "pyval list"
  a_color :: pyval
  a_label :: "pyval option"

text \<open>
  A contour set remembers the drawing call that made it (primitive, data,
  level specification, keywords) and holds one opacity per band or line,
  \<open>None\<close> standing for the opacity the primitive computed.
\<close>

record cset =
  cs_filled :: bool
  cs_x :: arraylike
  cs_y :: arraylike
  cs_z :: arraylike
  cs_levels :: pyval
  cs_kwargs :: kwargs
  collections :: "real option list"

record axes =
  artists :: "artist list"
  csets :: "cset list"
  xlabel :: "pyval option"
  ylabel :: "pyval option"
  auto_color :: "nat \<Rightarrow> pyval"
  cycle_pos :: nat

type_synonym ref = nat

record colorbar =
  cb_mappable :: nat
  cb_cax :: "ref option"
  cb_ax :: ref
  cb_kws :: kwargs

text \<open>
  Surfaces are objects: the session state maps references to their current
  contents, and a function that returns a surface returns a reference.
\<close>

record world =
  store :: "ref \<Rightarrow> axes"
  colorbars :: "colorbar list"

definition set_ax :: "ref \<Rightarrow> axes \<Rightarrow> world \<Rightarrow> world" where
  "set_ax r a w = w\<lparr>store := (store w)(r := a)\<rparr>"

text \<open>
  The operations of a surface are given by their effect on its contents.
  That the plotting library may reject their arguments is represented for
  the contour primitives and for the colormap, which are collaborators
  below, and not for \<^verbatim>\<open>plot\<close>, \<^verbatim>\<open>fill_between\<close>, the axis labels and the
  colorbar.
\<close>

text \<open>
  \<^verbatim>\<open>ax.plot(xs, ys, ...)\<close> appends a line. Without a \<^verbatim>\<open>color\<close> keyword the line
  takes the surface's next automatic colour and the cycle moves on.
\<close>

definition ax_plot ::
  "pyval list \<Rightarrow> pyval list \<Rightarrow> pyval option \<Rightarrow> pyval option \<Rightarrow> axes \<Rightarrow> axes" where
  "ax_plot xs ys color label a =
     (case color of
        None \<Rightarrow>
          a\<lparr>artists := artists a @
               [\<lparr>a_kind = Line, a_xdata = xs, a_ydata = ys,
                 a_color = auto_color a (cycle_pos a), a_label = label\<rparr>],
            cycle_pos := Suc (cycle_pos a)\<rparr>
      | Some col \<Rightarrow>
          a\<lparr>artists := artists a @
               [\<lparr>a_kind = Line, a_xdata = xs, a_ydata = ys,
                 a_color = col, a_label = label\<rparr>]\<rparr>)"

text \<open>\<^verbatim>\<open>ax.fill_between(xs, ys, color=col, label=label)\<close>.\<close>

definition ax_fill_between ::
  "pyval list \<Rightarrow> pyval list \<Rightarrow> pyval \<Rightarrow> pyval option \<Rightarrow> axes \<Rightarrow> axes" where
  "ax_fill_between xs ys col label a =
     a\<lparr>artists := artists a @
          [\<lparr>a_kind = FilledArea, a_xdata = xs, a_ydata = ys,
            a_color = col, a_label = label\<rparr>]\<rparr>"

text \<open>\<^verbatim>\<open>artist.remove()\<close> for the artist at position \<open>i\<close>.\<close>

definition remove_artist :: "nat \<Rightarrow> axes \<Rightarrow> axes" where
  "remove_artist i a = a\<lparr>artists := take i (artists a) @ drop (Suc i) (artists a)\<rparr>"

section \<open>Collaborators\<close>

text \<open>
  numpy, matplotlib and the palette helpers are not part of the module.
  Their results are parameters of the model; each may raise.
\<close>

record collab =
  gca :: "world \<Rightarrow> ref \<times> world"
  asarray :: "arraylike \<Rightarrow> error + arraylike"
  astype_float64 :: "arraylike \<Rightarrow> error + arraylike"
  light_palette :: "pyval \<Rightarrow> error + pyval"
  dark_palette :: "pyval \<Rightarrow> error + pyval"
  color_palette :: "string \<Rightarrow> nat \<Rightarrow> error + pyval list"
  blend_palette :: "pyval list \<Rightarrow> error + pyval"
  get_cmap :: "string \<Rightarrow> error + pyval"
  cmap_call :: "pyval \<Rightarrow> real \<Rightarrow> error + pyval"
  contourf ::
    "arraylike \<Rightarrow> arraylike \<Rightarrow> arraylike \<Rightarrow> pyval \<Rightarrow> kwargs \<Rightarrow> error + real option list"
  contour ::
    "arraylike \<Rightarrow> arraylike \<Rightarrow> arraylike \<Rightarrow> pyval \<Rightarrow> kwargs \<Rightarrow> error + real option list"

section \<open>\<^verbatim>\<open>_contour_plot\<close>, step by step\<close>

text \<open>
  Lines 138 to 140: a line without data is plotted, its colour read, and the
  line removed again.
\<close>

definition probe_color :: "axes \<Rightarrow> pyval \<times> axes" where
  "probe_color a =
     (let i = length (artists a);
          a1 = ax_plot [] [] None None a;
          default_color = a_color (artists a1 ! i)
      in (default_color, remove_artist i a1))"

text \<open>
  Lines 142 to 160. The result is the keyword dictionary for the drawing
  call and the local variables \<^verbatim>\<open>color\<close> and \<^verbatim>\<open>cmap\<close>, each \<open>None\<close> when the
  branch taken never assigns it. The test \<^verbatim>\<open>isinstance(cmap, string_types)\<close>
  is the case distinction on \<open>PStr\<close>; it also sees what a palette helper
  has just returned, as the two \<^verbatim>\<open>if\<close> statements follow one another.
\<close>

definition resolve_colors ::
  "collab \<Rightarrow> bool \<Rightarrow> pyval \<Rightarrow> kwargs \<Rightarrow> error + (kwargs \<times> pyval option \<times> pyval option)" where
  "resolve_colors c filled default_color kw =
     (let (colors, kw1) = dict_pop kw ''colors'' PNone in
      if colors = PNone then
        (let (color, kw2) = dict_pop kw1 ''color'' default_color;
             (cmap, kw3) = dict_pop kw2 ''cmap'' PNone
         in case (if cmap = PNone
                  then (if filled
                        then global_call ''light_palette'' (light_palette c color)
                        else global_call ''dark_palette'' (dark_palette c color))
                  else Inr cmap) of
              Inl e \<Rightarrow> Inl e
            | Inr cmap1 \<Rightarrow>
                (case (case cmap1 of
                         PStr s \<Rightarrow>
                           if endswith s ''_d''
                           then (case global_call ''color_palette''
                                        (color_palette c (str_replace ''_d'' ''_r'' s) 2) of
                                   Inl e \<Rightarrow> Inl e
                                 | Inr cols \<Rightarrow>
                                     global_call ''blend_palette''
                                       (blend_palette c (PStr ''#333333'' # cols)))
                           else global_call ''mpl'' (get_cmap c s)
                       | _ \<Rightarrow> Inr cmap1) of
                   Inl e \<Rightarrow> Inl e
                 | Inr cmap2 \<Rightarrow> Inr (kw3(''cmap'' \<mapsto> cmap2), Some color, Some cmap2)))
      else Inr (kw1(''colors'' \<mapsto> colors), None, None))"

text \<open>
  Lines 164 to 167: the primitive draws, and the new contour set is on the
  surface from then on; if asked, the opacity of its first band is set to 0.
  The result is the position of the contour set among those of the surface.
\<close>

definition draw_contours ::
  "collab \<Rightarrow> bool \<Rightarrow> bool \<Rightarrow> arraylike \<Rightarrow> arraylike \<Rightarrow> arraylike \<Rightarrow> pyval \<Rightarrow> kwargs \<Rightarrow>
   axes \<Rightarrow> (error + nat) \<times> axes" where
  "draw_contours c filled fill_lowest x y z n_levels kw a =
     (case (if filled then contourf c else contour c) x y z n_levels kw of
        Inl e \<Rightarrow> (Inl e, a)
      | Inr bands \<Rightarrow>
          (let cs = \<lparr>cs_filled = filled, cs_x = x, cs_y = y, cs_z = z,
                     cs_levels = n_levels, cs_kwargs = kw, collections = bands\<rparr>;
               i = length (csets a)
           in if filled \<and> \<not> fill_lowest then
                (case bands of
                   [] \<Rightarrow> (Inl IndexError, a\<lparr>csets := csets a @ [cs]\<rparr>)
                 | b # bs \<Rightarrow>
                     (Inr i, a\<lparr>csets := csets a @ [cs\<lparr>collections := Some 0 # bs\<rparr>]\<rparr>))
              else (Inr i, a\<lparr>csets := csets a @ [cs]\<rparr>)))"

text \<open>Lines 170 to 172.\<close>

definition add_colorbar ::
  "bool \<Rightarrow> nat \<Rightarrow> ref option \<Rightarrow> kwargs option \<Rightarrow> ref \<Rightarrow> world \<Rightarrow> world" where
  "add_colorbar cbar i cbar_ax cbar_kws ax w =
     (if cbar then
        (let kws = (case cbar_kws of None \<Rightarrow> Map.empty | Some k \<Rightarrow> k)
         in w\<lparr>colorbars := colorbars w @
                [\<lparr>cb_mappable = i, cb_cax = cbar_ax, cb_ax = ax, cb_kws = kws\<rparr>]\<rparr>)
      else w)"

text \<open>Lines 175 to 178.\<close>

definition label_axes :: "arraylike \<Rightarrow> arraylike \<Rightarrow> bool \<Rightarrow> axes \<Rightarrow> axes" where
  "label_axes x y axlabel a =
     (let a1 = (case name_attr x of
                  Some n \<Rightarrow> if axlabel then a\<lparr>xlabel := Some n\<rparr> else a
                | None \<Rightarrow> a)
      in case name_attr y of
           Some n \<Rightarrow> if axlabel then a1\<lparr>ylabel := Some n\<rparr> else a1
         | None \<Rightarrow> a1)"

text \<open>
  Lines 180 to 185. The condition \<^verbatim>\<open>color is None\<close> reads the local \<^verbatim>\<open>color\<close>
  first; \<^verbatim>\<open>cmap\<close> is read only when that test succeeds.
\<close>

definition legend_color ::
  "collab \<Rightarrow> pyval option \<Rightarrow> pyval option \<Rightarrow> error + pyval" where
  "legend_color c color cmap =
     (case color of
        None \<Rightarrow> Inl (UnboundLocalError ''color'')
      | Some col \<Rightarrow>
          if col = PNone then
            (case cmap of
               None \<Rightarrow> Inl (UnboundLocalError ''cmap'')
             | Some cm \<Rightarrow> cmap_call c cm 0.95)
          else Inr col)"

definition legend_proxy ::
  "collab \<Rightarrow> bool \<Rightarrow> pyval \<Rightarrow> pyval option \<Rightarrow> pyval option \<Rightarrow> axes \<Rightarrow> (error + unit) \<times> axes" where
  "legend_proxy c filled label color cmap a =
     (if label \<noteq> PNone then
        (case legend_color c color cmap of
           Inl e \<Rightarrow> (Inl e, a)
         | Inr col \<Rightarrow>
             if filled then (Inr (), ax_fill_between [] [] col (Some label) a)
             else (Inr (), ax_plot [] [] (Some col) (Some label) a))
      else (Inr (), a))"

text \<open>
  The whole helper, lines 132 to 187. The assignment \<^verbatim>\<open>kwargs["n_levels"] =
  n_levels\<close> of line 168 changes a dictionary that nothing reads afterwards
  and has no counterpart here.
\<close>

definition priv_contour_plot ::
  "collab \<Rightarrow> arraylike \<Rightarrow> arraylike \<Rightarrow> arraylike \<Rightarrow> bool \<Rightarrow> bool \<Rightarrow> bool \<Rightarrow> bool \<Rightarrow>
   ref option \<Rightarrow> kwargs option \<Rightarrow> ref \<Rightarrow> kwargs \<Rightarrow> world \<Rightarrow> (error + ref) \<times> world" where
  "priv_contour_plot c x y z filled fill_lowest axlabel cbar cbar_ax cbar_kws ax kwargs w =
     (let (n_levels, kw1) = dict_pop kwargs ''n_levels'' (PInt 10);
          (default_color, a1) = probe_color (store w ax);
          w1 = set_ax ax a1 w
      in case resolve_colors c filled default_color kw1 of
           Inl e \<Rightarrow> (Inl e, w1)
         | Inr (kw2, color, cmap) \<Rightarrow>
             (let (label, kw3) = dict_pop kw2 ''label'' PNone
              in case draw_contours c filled fill_lowest x y z n_levels kw3 (store w1 ax) of
                   (Inl e, a2) \<Rightarrow> (Inl e, set_ax ax a2 w1)
                 | (Inr i, a2) \<Rightarrow>
                     (let w2 = add_colorbar cbar i cbar_ax cbar_kws ax (set_ax ax a2 w1);
                          a3 = label_axes x y axlabel (store w2 ax)
                      in case legend_proxy c filled label color cmap a3 of
                           (Inl e, a4) \<Rightarrow> (Inl e, set_ax ax a4 w2)
                         | (Inr u, a4) \<Rightarrow> (Inr ax, set_ax ax a4 w2))))"

section \<open>\<^verbatim>\<open>contour_plot\<close>\<close>

text \<open>Lines 112 and 113 (and 118 to 122): a list becomes an array first.\<close>

definition coerce_list :: "collab \<Rightarrow> arraylike \<Rightarrow> error + arraylike" where
  "coerce_list c a = (if is_list a then asarray c a else Inr a)"

text \<open>Lines 118 to 123, for \<^verbatim>\<open>y\<close> and \<^verbatim>\<open>z\<close> alike.\<close>

definition to_float_array :: "collab \<Rightarrow> arraylike \<Rightarrow> error + arraylike" where
  "to_float_array c a =
     (case coerce_list c a of Inl e \<Rightarrow> Inl e | Inr a1 \<Rightarrow> astype_float64 c a1)"

definition contour_plot ::
  "collab \<Rightarrow> arraylike \<Rightarrow> arraylike \<Rightarrow> arraylike \<Rightarrow> bool \<Rightarrow> bool \<Rightarrow> bool \<Rightarrow> bool \<Rightarrow>
   ref option \<Rightarrow> kwargs option \<Rightarrow> ref option \<Rightarrow> kwargs \<Rightarrow> world \<Rightarrow> (error + ref) \<times> world" where
  "contour_plot c x y z shade legend shade_lowest cbar cbar_ax cbar_kws ax kwargs w =
     (let (ax1, w1) = (case ax of None \<Rightarrow> gca c w | Some r \<Rightarrow> (r, w))
      in case coerce_list c x of
           Inl e \<Rightarrow> (Inl e, w1)
         | Inr x1 \<Rightarrow>
             if py_len x1 = 0 then (Inr ax1, w1)
             else (case astype_float64 c x1 of
                     Inl e \<Rightarrow> (Inl e, w1)
                   | Inr x2 \<Rightarrow>
                       (case to_float_array c y of
                          Inl e \<Rightarrow> (Inl e, w1)
                        | Inr y2 \<Rightarrow>
                            (case to_float_array c z of
                               Inl e \<Rightarrow> (Inl e, w1)
                             | Inr z2 \<Rightarrow>
                                 priv_contour_plot c x2 y2 z2 shade shade_lowest legend
                                   cbar cbar_ax cbar_kws ax1 kwargs w1))))"

section \<open>Reading a run\<close>

text \<open>
  For every contour set on surface \<open>r\<close>, in drawing order, what its drawing
  call carried under keyword \<open>k\<close> (\<open>None\<close>: the call had no such keyword).
\<close>

definition passed_keyword :: "world \<Rightarrow> ref \<Rightarrow> string \<Rightarrow> pyval option list" where
  "passed_keyword w r k = map (\<lambda>cs. cs_kwargs cs k) (csets (store w r))"

section \<open>A concrete session\<close>

text \<open>
  Collaborators that always succeed, a session whose surfaces are all empty
  with \<^verbatim>\<open>"C0"\<close> as automatic colour, and a small grid: \<^verbatim>\<open>x = [1, 2]\<close> (as a list and as an array),
  \<^verbatim>\<open>y = x.reshape(-1, 1)\<close>, \<^verbatim>\<open>z = x * y\<close>. The current surface is number 1.
\<close>

definition sample_lib :: collab where
  "sample_lib =
     \<lparr>gca = (\<lambda>w. (1, w)),
      asarray = (\<lambda>a. Inr (NdArray (items a))),
      astype_float64 =
        (\<lambda>a. case a of PyList xs \<Rightarrow> Inl (AttributeError ''astype'') | _ \<Rightarrow> Inr a),
      light_palette = (\<lambda>col. Inr (PObj 1)),
      dark_palette = (\<lambda>col. Inr (PObj 2)),
      color_palette = (\<lambda>name n. Inr (replicate n (PObj 3))),
      blend_palette = (\<lambda>cols. Inr (PObj 4)),
      get_cmap = (\<lambda>name. Inr (PObj 5)),
      cmap_call = (\<lambda>cm pos. Inr (PObj 6)),
      contourf = (\<lambda>x y z lv kw. Inr [None, Some (1/2), None]),
      contour = (\<lambda>x y z lv kw. Inr [None, None])\<rparr>"

definition blank_axes :: axes where
  "blank_axes =
     \<lparr>artists = [], csets = [], xlabel = None, ylabel = None,
      auto_color = (\<lambda>n. PStr ''C0''), cycle_pos = 0\<rparr>"

definition sample_world :: world where
  "sample_world = \<lparr>store = (\<lambda>r. blank_axes), colorbars = []\<rparr>"

definition x_list :: arraylike where
  "x_list = PyList [PInt 1, PInt 2]"

definition x_arr :: arraylike where
  "x_arr = NdArray [PInt 1, PInt 2]"

definition y_col :: arraylike where
  "y_col = NdArray [PList [PInt 1], PList [PInt 2]]"

definition z_grid :: arraylike where
  "z_grid = NdArray [PList [PInt 1, PInt 2], PList [PInt 2, PInt 4]]"

section \<open>Basic facts\<close>

lemmas fixture_defs =
  sample_lib_def blank_axes_def sample_world_def x_list_def x_arr_def y_col_def z_grid_def

lemma dict_pop_eq:
  "dict_pop kw k d = ((case kw k of None \<Rightarrow> d | Some v \<Rightarrow> v), kw(k := None))"
  by (auto simp: dict_pop_def split: option.splits)

text \<open>The probe leaves no artist behind; only the colour cycle has moved.\<close>

lemma probe_color_eq:
  "probe_color a = (auto_color a (cycle_pos a), a\<lparr>cycle_pos := Suc (cycle_pos a)\<rparr>)"
  by (simp add: probe_color_def ax_plot_def remove_artist_def Let_def)

lemmas run_defs =
  contour_plot_def priv_contour_plot_def coerce_list_def to_float_array_def py_len_def
  resolve_colors_def draw_contours_def add_colorbar_def label_axes_def legend_proxy_def
  legend_color_def global_call_def module_globals_def endswith_def set_ax_def
  ax_plot_def ax_fill_between_def passed_keyword_def dict_pop_eq probe_color_eq Let_def

lemma store_add_colorbar: "store (add_colorbar cbar i cbar_ax cbar_kws ax w) = store w"
  by (simp add: add_colorbar_def Let_def)

lemma store_set_ax: "store (set_ax r a w) r = a"
  by (simp add: set_ax_def)

subsection \<open>Colour resolution\<close>

text \<open>
  With no \<^verbatim>\<open>colors\<close> and no \<^verbatim>\<open>cmap\<close> the helper asks for \<^verbatim>\<open>light_palette\<close> or
  \<^verbatim>\<open>dark_palette\<close>, and the module has neither name, whatever the
  collaborators would have returned.
\<close>

lemma resolve_colors_default_cmap:
  assumes "kw ''colors'' = None \<or> kw ''colors'' = Some PNone"
    and "kw ''cmap'' = None \<or> kw ''cmap'' = Some PNone"
  shows "resolve_colors c filled d kw =
           Inl (NameError (if filled then ''light_palette'' else ''dark_palette''))"
  using assms
  by (auto simp: resolve_colors_def dict_pop_eq global_call_def module_globals_def)

text \<open>The same holds for \<^verbatim>\<open>color_palette\<close> when the colormap name ends in \<^verbatim>\<open>"_d"\<close>.\<close>

lemma resolve_colors_reversed_name:
  assumes "kw ''colors'' = None \<or> kw ''colors'' = Some PNone"
    and "kw ''cmap'' = Some (PStr s)" and "endswith s ''_d''"
  shows "resolve_colors c filled d kw = Inl (NameError ''color_palette'')"
  using assms
  by (auto simp: resolve_colors_def dict_pop_eq global_call_def module_globals_def)

lemma resolve_colors_discrete:
  assumes "kw ''colors'' = Some cols" and "cols \<noteq> PNone"
  shows "resolve_colors c filled d kw = Inr (kw(''colors'' \<mapsto> cols), None, None)"
  using assms by (simp add: resolve_colors_def dict_pop_eq)

lemma resolve_colors_continuous:
  assumes "kw ''colors'' = None \<or> kw ''colors'' = Some PNone"
    and "resolve_colors c filled d kw = Inr (kw2, color, cmap)"
  shows "color = Some (case kw ''color'' of None \<Rightarrow> d | Some v \<Rightarrow> v)
         \<and> (\<exists>cm. cmap = Some cm \<and> kw2 ''cmap'' = Some cm)"
  using assms
  by (auto simp: resolve_colors_def dict_pop_eq Let_def split: sum.splits if_splits)

subsection \<open>Drawing, labelling, legend\<close>

lemma draw_contours_ok:
  assumes "(if filled then contourf c else contour c) x y z lv kws = Inr bands"
    and "\<not> (filled \<and> \<not> fill_lowest \<and> bands = [])"
  shows "draw_contours c filled fill_lowest x y z lv kws a =
           (Inr (length (csets a)),
            a\<lparr>csets := csets a @
                 [\<lparr>cs_filled = filled, cs_x = x, cs_y = y, cs_z = z, cs_levels = lv,
                   cs_kwargs = kws,
                   collections = (if filled \<and> \<not> fill_lowest then Some 0 # tl bands else bands)\<rparr>]\<rparr>)"
  using assms by (cases bands) (simp_all add: draw_contours_def Let_def)

lemma draw_contours_kwargs:
  assumes "(if filled then contourf c else contour c) x y z lv kws = Inr bands"
  shows "map cs_kwargs (csets (snd (draw_contours c filled fill_lowest x y z lv kws a)))
           = map cs_kwargs (csets a) @ [kws]"
  using assms by (cases bands) (simp_all add: draw_contours_def Let_def)

lemma draw_contours_returns:
  assumes "draw_contours c filled fill_lowest x y z lv kws a = (Inr i, a2)"
  shows "artists a2 = artists a \<and> map cs_kwargs (csets a2) = map cs_kwargs (csets a) @ [kws]"
  using assms
  by (auto simp: draw_contours_def Let_def split: sum.splits list.splits if_splits)

lemma legend_proxy_frame:
  "csets (snd (legend_proxy c filled label color cmap a)) = csets a"
  "xlabel (snd (legend_proxy c filled label color cmap a)) = xlabel a"
  "ylabel (snd (legend_proxy c filled label color cmap a)) = ylabel a"
  by (simp_all add: legend_proxy_def ax_plot_def ax_fill_between_def split: sum.splits)

lemma legend_proxy_returns:
  assumes "fst (legend_proxy c filled label color cmap a) = Inr u" and "label \<noteq> PNone"
  shows "\<exists>col. legend_color c color cmap = Inr col
           \<and> artists (snd (legend_proxy c filled label color cmap a))
               = artists a @
                 [\<lparr>a_kind = (if filled then FilledArea else Line), a_xdata = [], a_ydata = [],
                   a_color = col, a_label = Some label\<rparr>]"
  using assms
  by (auto simp: legend_proxy_def ax_plot_def ax_fill_between_def split: sum.splits)

lemma label_axes_frame:
  "csets (label_axes x y axlabel a) = csets a"
  "artists (label_axes x y axlabel a) = artists a"
  by (simp_all add: label_axes_def Let_def split: option.splits)


subsection \<open>The helper as a whole\<close>

text \<open>Once the colours are resolved and the contours drawn, only the legend step can fail.\<close>

lemma priv_after_draw:
  assumes "resolve_colors c filled (fst (probe_color (store w ax)))
             (snd (dict_pop kw ''n_levels'' (PInt 10))) = Inr (kw2, color, cmap)"
    and "draw_contours c filled fill_lowest x y z (fst (dict_pop kw ''n_levels'' (PInt 10)))
             (snd (dict_pop kw2 ''label'' PNone)) (snd (probe_color (store w ax))) = (Inr i, a2)"
  shows "store (snd (priv_contour_plot c x y z filled fill_lowest axlabel cbar cbar_ax cbar_kws
                       ax kw w)) ax
           = snd (legend_proxy c filled (fst (dict_pop kw2 ''label'' PNone)) color cmap
                    (label_axes x y axlabel a2))"
    and "fst (priv_contour_plot c x y z filled fill_lowest axlabel cbar cbar_ax cbar_kws ax kw w)
           = (case fst (legend_proxy c filled (fst (dict_pop kw2 ''label'' PNone)) color cmap
                    (label_axes x y axlabel a2)) of Inl e \<Rightarrow> Inl e | Inr u \<Rightarrow> Inr ax)"
  using assms
  by (simp_all add: priv_contour_plot_def Let_def case_prod_beta store_set_ax store_add_colorbar
        split: sum.splits)

lemma priv_csets:
  assumes "resolve_colors c filled (fst (probe_color (store w ax)))
             (snd (dict_pop kw ''n_levels'' (PInt 10))) = Inr (kw2, color, cmap)"
  shows "csets (store (snd (priv_contour_plot c x y z filled fill_lowest axlabel cbar cbar_ax
                              cbar_kws ax kw w)) ax)
           = csets (snd (draw_contours c filled fill_lowest x y z
                           (fst (dict_pop kw ''n_levels'' (PInt 10)))
                           (snd (dict_pop kw2 ''label'' PNone)) (snd (probe_color (store w ax)))))"
  using assms
  by (simp add: priv_contour_plot_def Let_def case_prod_beta store_set_ax store_add_colorbar
        legend_proxy_frame label_axes_frame split: sum.splits)

text \<open>A run of the helper that returns has passed every step.\<close>

lemma priv_returns_cases:
  assumes "fst (priv_contour_plot c x y z filled fill_lowest axlabel cbar cbar_ax cbar_kws
                  ax kw w) = Inr r"
  obtains kw2 color cmap i a2 where
    "resolve_colors c filled (fst (probe_color (store w ax)))
       (snd (dict_pop kw ''n_levels'' (PInt 10))) = Inr (kw2, color, cmap)"
    "draw_contours c filled fill_lowest x y z (fst (dict_pop kw ''n_levels'' (PInt 10)))
       (snd (dict_pop kw2 ''label'' PNone)) (snd (probe_color (store w ax))) = (Inr i, a2)"
    "fst (legend_proxy c filled (fst (dict_pop kw2 ''label'' PNone)) color cmap
            (label_axes x y axlabel a2)) = Inr ()"
proof -
  let ?res = "resolve_colors c filled (fst (probe_color (store w ax)))
       (snd (dict_pop kw ''n_levels'' (PInt 10)))"
  from assms obtain kw2 color cmap where res: "?res = Inr (kw2, color, cmap)"
    by (cases ?res) (auto simp: priv_contour_plot_def Let_def case_prod_beta)
  let ?draw = "draw_contours c filled fill_lowest x y z (fst (dict_pop kw ''n_levels'' (PInt 10)))
       (snd (dict_pop kw2 ''label'' PNone)) (snd (probe_color (store w ax)))"
  from assms res obtain i where "fst ?draw = Inr i"
    by (cases "fst ?draw")
       (auto simp: priv_contour_plot_def Let_def case_prod_beta store_set_ax)
  then have draw: "?draw = (Inr i, snd ?draw)"
    by (simp add: prod_eq_iff)
  from priv_after_draw(2) [OF res draw] assms
  have "fst (legend_proxy c filled (fst (dict_pop kw2 ''label'' PNone)) color cmap
            (label_axes x y axlabel (snd ?draw))) = Inr ()"
    by (auto split: sum.splits)
  with res draw show thesis by (rule that)
qed

lemma priv_returns_ax:
  assumes "fst (priv_contour_plot c x y z filled fill_lowest axlabel cbar cbar_ax cbar_kws
                  ax kw w) = Inr r"
  shows "r = ax"
proof -
  from assms obtain kw2 color cmap i a2 where
    res: "resolve_colors c filled (fst (probe_color (store w ax)))
       (snd (dict_pop kw ''n_levels'' (PInt 10))) = Inr (kw2, color, cmap)"
    and draw: "draw_contours c filled fill_lowest x y z (fst (dict_pop kw ''n_levels'' (PInt 10)))
       (snd (dict_pop kw2 ''label'' PNone)) (snd (probe_color (store w ax))) = (Inr i, a2)"
    and leg: "fst (legend_proxy c filled (fst (dict_pop kw2 ''label'' PNone)) color cmap
            (label_axes x y axlabel a2)) = Inr ()"
    by (rule priv_returns_cases)
  from priv_after_draw(2) [OF res draw] assms leg show ?thesis by simp
qed

text \<open>
  When the colours cannot be resolved nothing is drawn. With the module's
  globals this is what happens on every call that leaves the colormap to be
  derived from the colour, and on every colormap name ending in \<^verbatim>\<open>"_d"\<close>.
\<close>

lemma priv_resolve_fails:
  assumes "resolve_colors c filled (fst (probe_color (store w ax)))
             (snd (dict_pop kw ''n_levels'' (PInt 10))) = Inl e"
  shows "fst (priv_contour_plot c x y z filled fill_lowest axlabel cbar cbar_ax cbar_kws ax kw w)
           = Inl e"
    and "csets (store (snd (priv_contour_plot c x y z filled fill_lowest axlabel cbar cbar_ax
                              cbar_kws ax kw w)) ax) = csets (store w ax)"
    and "artists (store (snd (priv_contour_plot c x y z filled fill_lowest axlabel cbar cbar_ax
                              cbar_kws ax kw w)) ax) = artists (store w ax)"
  using assms
  by (simp_all add: priv_contour_plot_def Let_def case_prod_beta store_set_ax probe_color_eq)

lemma priv_default_cmap_name_error:
  assumes "kw ''colors'' = None \<or> kw ''colors'' = Some PNone"
    and "kw ''cmap'' = None \<or> kw ''cmap'' = Some PNone"
  shows "fst (priv_contour_plot c x y z filled fill_lowest axlabel cbar cbar_ax cbar_kws ax kw w)
           = Inl (NameError (if filled then ''light_palette'' else ''dark_palette''))"
    and "csets (store (snd (priv_contour_plot c x y z filled fill_lowest axlabel cbar cbar_ax
                              cbar_kws ax kw w)) ax) = csets (store w ax)"
proof -
  have "resolve_colors c filled (fst (probe_color (store w ax)))
          (snd (dict_pop kw ''n_levels'' (PInt 10)))
        = Inl (NameError (if filled then ''light_palette'' else ''dark_palette''))"
    using assms by (intro resolve_colors_default_cmap) (simp_all add: dict_pop_eq)
  from priv_resolve_fails(1,2) [OF this]
  show "fst (priv_contour_plot c x y z filled fill_lowest axlabel cbar cbar_ax cbar_kws ax kw w)
           = Inl (NameError (if filled then ''light_palette'' else ''dark_palette''))"
    and "csets (store (snd (priv_contour_plot c x y z filled fill_lowest axlabel cbar cbar_ax
                              cbar_kws ax kw w)) ax) = csets (store w ax)"
    by simp_all
qed

lemma priv_reversed_name_error:
  assumes "kw ''colors'' = None \<or> kw ''colors'' = Some PNone"
    and "kw ''cmap'' = Some (PStr s)" and "endswith s ''_d''"
  shows "fst (priv_contour_plot c x y z filled fill_lowest axlabel cbar cbar_ax cbar_kws ax kw w)
           = Inl (NameError ''color_palette'')"
    and "csets (store (snd (priv_contour_plot c x y z filled fill_lowest axlabel cbar cbar_ax
                              cbar_kws ax kw w)) ax) = csets (store w ax)"
proof -
  have "resolve_colors c filled (fst (probe_color (store w ax)))
          (snd (dict_pop kw ''n_levels'' (PInt 10))) = Inl (NameError ''color_palette'')"
    using assms by (intro resolve_colors_reversed_name [where s = s]) (simp_all add: dict_pop_eq)
  from priv_resolve_fails(1,2) [OF this]
  show "fst (priv_contour_plot c x y z filled fill_lowest axlabel cbar cbar_ax cbar_kws ax kw w)
           = Inl (NameError ''color_palette'')"
    and "csets (store (snd (priv_contour_plot c x y z filled fill_lowest axlabel cbar cbar_ax
                              cbar_kws ax kw w)) ax) = csets (store w ax)"
    by simp_all
qed

section \<open>The claims\<close>

subsection \<open>Colormap derived from a base colour\<close>

text \<open>
  C1. The claim: with \<^verbatim>\<open>colors\<close> absent, \<^verbatim>\<open>color\<close> supplied and \<^verbatim>\<open>cmap\<close> not
  supplied, the colormap passed to the contour primitive is the light
  palette of \<^verbatim>\<open>color\<close> in filled mode and its dark palette in line mode.
  The code calls \<^verbatim>\<open>light_palette\<close> and \<^verbatim>\<open>dark_palette\<close> as bare names that
  the module never binds. On \<^verbatim>\<open>contour_plot(x, y, z, shade=True, color="r")\<close>
  and on the same call with \<^verbatim>\<open>shade=False\<close> the run ends in a \<open>NameError\<close>
  and the surface holds no contour set: no primitive was invoked.
\<close>

theorem C1_default_colormap_raises_name_error:
  "fst (contour_plot sample_lib x_list y_col z_grid True True True False None None (Some 0)
          [''color'' \<mapsto> PStr ''r''] sample_world) = Inl (NameError ''light_palette'')
   \<and> csets (store (snd (contour_plot sample_lib x_list y_col z_grid True True True False None
          None (Some 0) [''color'' \<mapsto> PStr ''r''] sample_world)) 0) = []
   \<and> fst (contour_plot sample_lib x_list y_col z_grid False True True False None None (Some 0)
          [''color'' \<mapsto> PStr ''r''] sample_world) = Inl (NameError ''dark_palette'')
   \<and> csets (store (snd (contour_plot sample_lib x_list y_col z_grid False True True False None
          None (Some 0) [''color'' \<mapsto> PStr ''r''] sample_world)) 0) = []"
  by (simp add: run_defs fixture_defs)

subsection \<open>Discrete colours\<close>

text \<open>
  C2, as stated, fails: on \<^verbatim>\<open>_contour_plot(..., colors=["k"], cmap="viridis")\<close>
  the drawing call carries the colour list and the caller's \<^verbatim>\<open>cmap\<close> as well,
  since \<^verbatim>\<open>cmap\<close> is popped from the keywords only when \<^verbatim>\<open>colors\<close> is absent.
\<close>

theorem C2_counterexample_cmap_forwarded:
  "passed_keyword
     (snd (priv_contour_plot sample_lib x_arr y_col z_grid False True True False None None 0
             [''colors'' \<mapsto> PList [PStr ''k''], ''cmap'' \<mapsto> PStr ''viridis''] sample_world))
     0 ''colors'' = [Some (PList [PStr ''k''])]
   \<and> passed_keyword
     (snd (priv_contour_plot sample_lib x_arr y_col z_grid False True True False None None 0
             [''colors'' \<mapsto> PList [PStr ''k''], ''cmap'' \<mapsto> PStr ''viridis''] sample_world))
     0 ''cmap'' \<noteq> [None]"
  by (simp add: run_defs fixture_defs)

text \<open>
  C2, amended: when an explicit \<^verbatim>\<open>colors\<close> value is supplied and the primitive
  is invoked, its keywords are the caller's without \<^verbatim>\<open>n_levels\<close> and \<^verbatim>\<open>label\<close>.
  So the call carries the colour list, and under \<^verbatim>\<open>cmap\<close> exactly what the
  caller gave, unresolved, or nothing when the caller gave none: no colormap
  is derived.
\<close>

theorem C2_colors_forwarded_without_derivation:
  assumes cols: "kw ''colors'' = Some cols" "cols \<noteq> PNone"
    and prim: "(if filled then contourf c else contour c) x y z
                 (fst (dict_pop kw ''n_levels'' (PInt 10)))
                 (kw(''n_levels'' := None, ''colors'' \<mapsto> cols, ''label'' := None)) = Inr bands"
  shows "passed_keyword (snd (priv_contour_plot c x y z filled fill_lowest axlabel cbar cbar_ax
            cbar_kws ax kw w)) ax ''colors'' = passed_keyword w ax ''colors'' @ [Some cols]
     \<and> passed_keyword (snd (priv_contour_plot c x y z filled fill_lowest axlabel cbar cbar_ax
            cbar_kws ax kw w)) ax ''cmap'' = passed_keyword w ax ''cmap'' @ [kw ''cmap'']"
proof -
  let ?kw2 = "(kw(''n_levels'' := None))(''colors'' \<mapsto> cols)"
  let ?w' = "snd (priv_contour_plot c x y z filled fill_lowest axlabel cbar cbar_ax
            cbar_kws ax kw w)"
  have res: "resolve_colors c filled (fst (probe_color (store w ax)))
               (snd (dict_pop kw ''n_levels'' (PInt 10))) = Inr (?kw2, None, None)"
    using cols by (simp add: dict_pop_eq resolve_colors_discrete)
  have prim': "(if filled then contourf c else contour c) x y z
                 (fst (dict_pop kw ''n_levels'' (PInt 10)))
                 (snd (dict_pop ?kw2 ''label'' PNone)) = Inr bands"
    using prim by (simp add: dict_pop_eq)
  have "map cs_kwargs (csets (store ?w' ax))
          = map cs_kwargs (csets (store w ax)) @ [snd (dict_pop ?kw2 ''label'' PNone)]"
    by (simp add: priv_csets [OF res] draw_contours_kwargs [OF prim'] probe_color_eq)
  then have "map (\<lambda>f. f k) (map cs_kwargs (csets (store ?w' ax)))
          = map (\<lambda>f. f k) (map cs_kwargs (csets (store w ax)) @
              [snd (dict_pop ?kw2 ''label'' PNone)])" for k
    by (rule arg_cong)
  then have "passed_keyword ?w' ax k
          = passed_keyword w ax k @ [snd (dict_pop ?kw2 ''label'' PNone) k]" for k
    by (simp add: passed_keyword_def o_def)
  then show ?thesis by (simp add: dict_pop_eq)
qed

theorem C2_colors_forwarded_witness:
  "[''colors'' \<mapsto> PList [PStr ''k''], ''cmap'' \<mapsto> PStr ''viridis''] ''colors''
     = Some (PList [PStr ''k''])
   \<and> PList [PStr ''k''] \<noteq> PNone
   \<and> contour sample_lib x_arr y_col z_grid
       (fst (dict_pop [''colors'' \<mapsto> PList [PStr ''k''], ''cmap'' \<mapsto> PStr ''viridis'']
               ''n_levels'' (PInt 10)))
       ([''colors'' \<mapsto> PList [PStr ''k''], ''cmap'' \<mapsto> PStr ''viridis'']
          (''n_levels'' := None, ''colors'' \<mapsto> PList [PStr ''k''], ''label'' := None))
       = Inr [None, None]
   \<and> passed_keyword
       (snd (priv_contour_plot sample_lib x_arr y_col z_grid False True True False None None 0
               [''colors'' \<mapsto> PList [PStr ''k''], ''cmap'' \<mapsto> PStr ''viridis''] sample_world))
       0 ''colors'' = [Some (PList [PStr ''k''])]
   \<and> passed_keyword
       (snd (priv_contour_plot sample_lib x_arr y_col z_grid False True True False None None 0
               [''colors'' \<mapsto> PList [PStr ''k''], ''cmap'' \<mapsto> PStr ''viridis''] sample_world))
       0 ''cmap'' = [Some (PStr ''viridis'')]"
proof -
  let ?kw = "[''colors'' \<mapsto> PList [PStr ''k''], ''cmap'' \<mapsto> PStr ''viridis'']"
  have h1: "?kw ''colors'' = Some (PList [PStr ''k''])" by simp
  have h2: "PList [PStr ''k''] \<noteq> PNone" by simp
  have h3: "(if False then contourf sample_lib else contour sample_lib) x_arr y_col z_grid
       (fst (dict_pop ?kw ''n_levels'' (PInt 10)))
       (?kw(''n_levels'' := None, ''colors'' \<mapsto> PList [PStr ''k''], ''label'' := None))
       = Inr [None, None]"
    by (simp add: sample_lib_def)
  from C2_colors_forwarded_without_derivation [OF h1 h2 h3, of True True False None None 0
         sample_world] h3
  show ?thesis
    by (simp add: passed_keyword_def sample_world_def blank_axes_def)
qed

subsection \<open>The lowest band\<close>



subsection \<open>Reversed colormap names\<close>

text \<open>
  C4. The claim: a \<^verbatim>\<open>cmap\<close> name ending in \<^verbatim>\<open>"_d"\<close> resolves to a blend that
  starts near black and raises no error. The code builds that blend with
  \<^verbatim>\<open>color_palette\<close> and \<^verbatim>\<open>blend_palette\<close>, two more names the module never
  binds: the call of the docstring,
  \<^verbatim>\<open>contour_plot(x, y, z, n_levels=30, cmap="Purples_d")\<close>, ends in a
  \<open>NameError\<close> before anything is drawn.
\<close>

theorem C4_reversed_colormap_raises_name_error:
  "fst (contour_plot sample_lib x_list y_col z_grid False True True False None None (Some 0)
          [''n_levels'' \<mapsto> PInt 30, ''cmap'' \<mapsto> PStr ''Purples_d''] sample_world)
     = Inl (NameError ''color_palette'')
   \<and> csets (store (snd (contour_plot sample_lib x_list y_col z_grid False True True False None
          None (Some 0) [''n_levels'' \<mapsto> PInt 30, ''cmap'' \<mapsto> PStr ''Purples_d'']
          sample_world)) 0) = []"
  by (simp add: run_defs fixture_defs)

subsection \<open>The colour of the legend proxy\<close>

text \<open>
  C5, as stated, fails: on \<^verbatim>\<open>contour_plot(x, y, z, cmap="viridis", label="a")\<close>,
  with no \<^verbatim>\<open>color\<close> given, the call returns, the drawing call carries the
  resolved colormap \<open>PObj 5\<close>, that colormap at 0.95 is \<open>PObj 6\<close>, and the one
  artist added is drawn in \<^verbatim>\<open>"C0"\<close>, the automatic colour read from the probe.
\<close>

theorem C5_counterexample_default_color_used:
  "fst (contour_plot sample_lib x_list y_col z_grid False True True False None None (Some 0)
          [''cmap'' \<mapsto> PStr ''viridis'', ''label'' \<mapsto> PStr ''a''] sample_world) = Inr 0
   \<and> passed_keyword
       (snd (contour_plot sample_lib x_list y_col z_grid False True True False None None (Some 0)
               [''cmap'' \<mapsto> PStr ''viridis'', ''label'' \<mapsto> PStr ''a''] sample_world))
       0 ''cmap'' = [Some (PObj 5)]
   \<and> cmap_call sample_lib (PObj 5) 0.95 = Inr (PObj 6)
   \<and> map a_color (artists (store
       (snd (contour_plot sample_lib x_list y_col z_grid False True True False None None (Some 0)
               [''cmap'' \<mapsto> PStr ''viridis'', ''label'' \<mapsto> PStr ''a''] sample_world)) 0))
       = [PStr ''C0'']
   \<and> map a_color (artists (store
       (snd (contour_plot sample_lib x_list y_col z_grid False True True False None None (Some 0)
               [''cmap'' \<mapsto> PStr ''viridis'', ''label'' \<mapsto> PStr ''a''] sample_world)) 0))
       \<noteq> [PObj 6]"
  by (simp add: run_defs fixture_defs)

text \<open>
  C5, amended: let \<open>color\<close> be what line 144 binds, the caller's \<^verbatim>\<open>color\<close> or,
  when none was given, the automatic colour read from the probe. For every
  call of the helper that returns, with \<^verbatim>\<open>colors\<close> absent and \<^verbatim>\<open>label\<close> set,
  exactly one artist is added and its colour is \<open>color\<close> whenever \<open>color\<close> is
  not \<^verbatim>\<open>None\<close>; only when \<open>color\<close> is \<^verbatim>\<open>None\<close> (the caller passed \<^verbatim>\<open>color=None\<close>,
  or the probe gave \<^verbatim>\<open>None\<close>) is it the colormap of the drawing call evaluated
  at 0.95.
\<close>

theorem C5_legend_color:
  assumes absent: "kw ''colors'' = None \<or> kw ''colors'' = Some PNone"
    and lab: "kw ''label'' = Some lab" "lab \<noteq> PNone"
    and ret: "fst (priv_contour_plot c x y z filled fill_lowest axlabel cbar cbar_ax cbar_kws
                     ax kw w) = Inr r"
    and color: "color = fst (dict_pop kw ''color'' (fst (probe_color (store w ax))))"
  shows "\<exists>col. map a_color (artists (store (snd (priv_contour_plot c x y z filled fill_lowest
                   axlabel cbar cbar_ax cbar_kws ax kw w)) ax))
               = map a_color (artists (store w ax)) @ [col]
            \<and> (if color \<noteq> PNone then col = color
               else \<exists>cm. last (passed_keyword (snd (priv_contour_plot c x y z filled fill_lowest
                   axlabel cbar cbar_ax cbar_kws ax kw w)) ax ''cmap'') = Some cm
                     \<and> cmap_call c cm 0.95 = Inr col)"
proof -
  let ?w' = "snd (priv_contour_plot c x y z filled fill_lowest axlabel cbar cbar_ax cbar_kws
                     ax kw w)"
  from ret obtain kw2 colv cmap i a2 where
    res: "resolve_colors c filled (fst (probe_color (store w ax)))
       (snd (dict_pop kw ''n_levels'' (PInt 10))) = Inr (kw2, colv, cmap)"
    and draw: "draw_contours c filled fill_lowest x y z (fst (dict_pop kw ''n_levels'' (PInt 10)))
       (snd (dict_pop kw2 ''label'' PNone)) (snd (probe_color (store w ax))) = (Inr i, a2)"
    and leg: "fst (legend_proxy c filled (fst (dict_pop kw2 ''label'' PNone)) colv cmap
            (label_axes x y axlabel a2)) = Inr ()"
    by (rule priv_returns_cases)
  from absent have absent': "snd (dict_pop kw ''n_levels'' (PInt 10)) ''colors'' = None
      \<or> snd (dict_pop kw ''n_levels'' (PInt 10)) ''colors'' = Some PNone"
    by (simp add: dict_pop_eq)
  from resolve_colors_continuous [OF absent' res] obtain cm where
    colv: "colv = Some color" and cm: "cmap = Some cm" "kw2 ''cmap'' = Some cm"
    by (auto simp: color dict_pop_eq)
  have kw2_label: "kw2 ''label'' = Some lab"
    using res absent lab
    by (auto simp: resolve_colors_def dict_pop_eq Let_def split: sum.splits if_splits)
  then have lab': "fst (dict_pop kw2 ''label'' PNone) = lab"
    by (simp add: dict_pop_eq)
  from legend_proxy_returns [OF leg [unfolded lab'] lab(2)] obtain col where
    lc: "legend_color c colv cmap = Inr col"
    and arts: "artists (snd (legend_proxy c filled lab colv cmap (label_axes x y axlabel a2)))
               = artists (label_axes x y axlabel a2) @
                 [\<lparr>a_kind = (if filled then FilledArea else Line), a_xdata = [], a_ydata = [],
                   a_color = col, a_label = Some lab\<rparr>]"
    by blast
  from draw_contours_returns [OF draw] have
    a2: "artists a2 = artists (store w ax)"
    and kws: "map cs_kwargs (csets a2)
              = map cs_kwargs (csets (store w ax)) @ [snd (dict_pop kw2 ''label'' PNone)]"
    by (simp_all add: probe_color_eq)
  have st: "store ?w' ax = snd (legend_proxy c filled lab colv cmap (label_axes x y axlabel a2))"
    using priv_after_draw(1) [OF res draw] by (simp add: lab')
  have 1: "map a_color (artists (store ?w' ax)) = map a_color (artists (store w ax)) @ [col]"
    by (simp add: st arts label_axes_frame a2)
  have "last (map cs_kwargs (csets (store ?w' ax))) ''cmap'' = Some cm"
    by (simp add: st legend_proxy_frame label_axes_frame kws dict_pop_eq cm)
  moreover have "csets (store ?w' ax) \<noteq> []"
    using kws by (auto simp: st legend_proxy_frame label_axes_frame)
  ultimately have 2: "last (passed_keyword ?w' ax ''cmap'') = Some cm"
    by (simp add: passed_keyword_def last_map)
  from lc have 3: "if color \<noteq> PNone then col = color else cmap_call c cm 0.95 = Inr col"
    by (auto simp: legend_color_def colv cm split: if_splits)
  from 1 2 3 show ?thesis by (cases "color = PNone") auto
qed

theorem C5_legend_color_witness:
  "([''cmap'' \<mapsto> PStr ''viridis'', ''label'' \<mapsto> PStr ''a''] ''colors'' = None
      \<or> [''cmap'' \<mapsto> PStr ''viridis'', ''label'' \<mapsto> PStr ''a''] ''colors'' = Some PNone)
   \<and> [''cmap'' \<mapsto> PStr ''viridis'', ''label'' \<mapsto> PStr ''a''] ''label'' = Some (PStr ''a'')
   \<and> PStr ''a'' \<noteq> PNone
   \<and> fst (priv_contour_plot sample_lib x_arr y_col z_grid False True True False None None 0
          [''cmap'' \<mapsto> PStr ''viridis'', ''label'' \<mapsto> PStr ''a''] sample_world) = Inr 0
   \<and> PStr ''C0'' = fst (dict_pop [''cmap'' \<mapsto> PStr ''viridis'', ''label'' \<mapsto> PStr ''a'']
                          ''color'' (fst (probe_color (store sample_world 0))))
   \<and> map a_color (artists (store
       (snd (priv_contour_plot sample_lib x_arr y_col z_grid False True True False None None 0
          [''cmap'' \<mapsto> PStr ''viridis'', ''label'' \<mapsto> PStr ''a''] sample_world)) 0))
       = [PStr ''C0'']"
proof -
  let ?kw = "[''cmap'' \<mapsto> PStr ''viridis'', ''label'' \<mapsto> PStr ''a'']"
  have h1: "?kw ''colors'' = None \<or> ?kw ''colors'' = Some PNone" by simp
  have h2: "?kw ''label'' = Some (PStr ''a'')" by simp
  have h3: "PStr ''a'' \<noteq> PNone" by simp
  have h4: "fst (priv_contour_plot sample_lib x_arr y_col z_grid False True True False None None 0
          ?kw sample_world) = Inr 0"
    by (simp add: run_defs fixture_defs)
  have h5: "PStr ''C0'' = fst (dict_pop ?kw ''color'' (fst (probe_color (store sample_world 0))))"
    by (simp add: dict_pop_eq probe_color_eq sample_world_def blank_axes_def)
  let ?arts = "map a_color (artists (store
       (snd (priv_contour_plot sample_lib x_arr y_col z_grid False True True False None None 0
          ?kw sample_world)) 0))"
  from C5_legend_color [OF h1 h2 h3 h4 h5]
  have "\<exists>col. ?arts = map a_color (artists (store sample_world 0)) @ [col]
            \<and> col = PStr ''C0''"
    by simp
  then have "?arts = map a_color (artists (store sample_world 0)) @ [PStr ''C0'']"
    by blast
  then have "?arts = [PStr ''C0'']"
    by (simp add: sample_world_def blank_axes_def)
  with h1 h2 h3 h4 h5 show ?thesis
    by blast
qed

subsection \<open>The legend proxy\<close>

text \<open>
  C6. The claim: every call with a \<^verbatim>\<open>label\<close> keeps the label away from the
  primitive and adds exactly one zero-length proxy that carries it. On
  \<^verbatim>\<open>contour_plot(x, y, z, colors=["k"], label="a")\<close> the first half holds and
  the second does not: the contours are drawn without a \<^verbatim>\<open>label\<close> keyword,
  then line 181 reads the local \<^verbatim>\<open>color\<close>, which only the branch for absent
  \<^verbatim>\<open>colors\<close> assigns, and the call ends in an \<open>UnboundLocalError\<close> with no
  artist on the surface.
\<close>

theorem C6_colors_with_label_adds_no_proxy:
  "fst (contour_plot sample_lib x_list y_col z_grid False True True False None None (Some 0)
          [''colors'' \<mapsto> PList [PStr ''k''], ''label'' \<mapsto> PStr ''a''] sample_world)
     = Inl (UnboundLocalError ''color'')
   \<and> passed_keyword
       (snd (contour_plot sample_lib x_list y_col z_grid False True True False None None (Some 0)
               [''colors'' \<mapsto> PList [PStr ''k''], ''label'' \<mapsto> PStr ''a''] sample_world))
       0 ''label'' = [None]
   \<and> artists (store
       (snd (contour_plot sample_lib x_list y_col z_grid False True True False None None (Some 0)
               [''colors'' \<mapsto> PList [PStr ''k''], ''label'' \<mapsto> PStr ''a''] sample_world)) 0)
       = []"
  by (simp add: run_defs fixture_defs)

text \<open>
  What the code does for a label whenever the helper returns: the one artist
  it adds has no data, carries the label, and is a filled area in filled
  mode and a line otherwise; the drawing call has no \<^verbatim>\<open>label\<close> keyword.
\<close>

lemma legend_proxy_when_helper_returns:
  assumes lab: "kw ''label'' = Some lab" "lab \<noteq> PNone"
    and ret: "fst (priv_contour_plot c x y z filled fill_lowest axlabel cbar cbar_ax cbar_kws
                     ax kw w) = Inr r"
  shows "\<exists>col. artists (store (snd (priv_contour_plot c x y z filled fill_lowest axlabel cbar
                  cbar_ax cbar_kws ax kw w)) ax)
               = artists (store w ax) @
                 [\<lparr>a_kind = (if filled then FilledArea else Line), a_xdata = [], a_ydata = [],
                   a_color = col, a_label = Some lab\<rparr>]"
    and "passed_keyword (snd (priv_contour_plot c x y z filled fill_lowest axlabel cbar
                  cbar_ax cbar_kws ax kw w)) ax ''label''
           = passed_keyword w ax ''label'' @ [None]"
proof -
  let ?w' = "snd (priv_contour_plot c x y z filled fill_lowest axlabel cbar cbar_ax cbar_kws
                     ax kw w)"
  from ret obtain kw2 colv cmap i a2 where
    res: "resolve_colors c filled (fst (probe_color (store w ax)))
       (snd (dict_pop kw ''n_levels'' (PInt 10))) = Inr (kw2, colv, cmap)"
    and draw: "draw_contours c filled fill_lowest x y z (fst (dict_pop kw ''n_levels'' (PInt 10)))
       (snd (dict_pop kw2 ''label'' PNone)) (snd (probe_color (store w ax))) = (Inr i, a2)"
    and leg: "fst (legend_proxy c filled (fst (dict_pop kw2 ''label'' PNone)) colv cmap
            (label_axes x y axlabel a2)) = Inr ()"
    by (rule priv_returns_cases)
  have "kw2 ''label'' = Some lab"
    using res lab
    by (auto simp: resolve_colors_def dict_pop_eq Let_def split: sum.splits if_splits)
  then have lab': "fst (dict_pop kw2 ''label'' PNone) = lab"
    by (simp add: dict_pop_eq)
  from draw_contours_returns [OF draw] have
    a2: "artists a2 = artists (store w ax)"
    and kws: "map cs_kwargs (csets a2)
              = map cs_kwargs (csets (store w ax)) @ [snd (dict_pop kw2 ''label'' PNone)]"
    by (simp_all add: probe_color_eq)
  have st: "store ?w' ax = snd (legend_proxy c filled lab colv cmap (label_axes x y axlabel a2))"
    using priv_after_draw(1) [OF res draw] by (simp add: lab')
  from legend_proxy_returns [OF leg [unfolded lab'] lab(2)]
  show "\<exists>col. artists (store ?w' ax)
               = artists (store w ax) @
                 [\<lparr>a_kind = (if filled then FilledArea else Line), a_xdata = [], a_ydata = [],
                   a_color = col, a_label = Some lab\<rparr>]"
    by (auto simp: st label_axes_frame a2)
  have "map (\<lambda>f. f ''label'') (map cs_kwargs (csets (store ?w' ax)))
          = map (\<lambda>f. f ''label'') (map cs_kwargs (csets (store w ax)) @
              [snd (dict_pop kw2 ''label'' PNone)])"
    by (simp add: st legend_proxy_frame label_axes_frame kws)
  then show "passed_keyword ?w' ax ''label'' = passed_keyword w ax ''label'' @ [None]"
    by (simp add: passed_keyword_def o_def dict_pop_eq)
qed

subsection \<open>Empty input\<close>

text \<open>
  C7. When \<^verbatim>\<open>x\<close>, made an array if it was a list, has length 0,
  \<^verbatim>\<open>contour_plot\<close> returns normally with the target surface and has done
  nothing to the session: given \<^verbatim>\<open>ax\<close>, the state is the one it started from
  (no contour set, no colorbar, no axis label, no artist, not even the colour
  probe); with \<^verbatim>\<open>ax=None\<close> the state is the one \<^verbatim>\<open>plt.gca()\<close> left.
\<close>

theorem C7_empty_x_returns_surface_unchanged:
  assumes "coerce_list c x = Inr x1" and "py_len x1 = 0"
  shows "contour_plot c x y z shade legend shade_lowest cbar cbar_ax cbar_kws (Some r) kw w
           = (Inr r, w)
       \<and> contour_plot c x y z shade legend shade_lowest cbar cbar_ax cbar_kws None kw w
           = (Inr (fst (gca c w)), snd (gca c w))"
  using assms by (simp add: contour_plot_def split: prod.splits)

theorem C7_empty_x_witness:
  "coerce_list sample_lib (PyList []) = Inr (NdArray [])
   \<and> py_len (NdArray []) = 0
   \<and> contour_plot sample_lib (PyList []) y_col z_grid True True False True None None (Some 0)
        [''label'' \<mapsto> PStr ''a''] sample_world = (Inr 0, sample_world)
   \<and> contour_plot sample_lib (PyList []) y_col z_grid True True False True None None None
        [''label'' \<mapsto> PStr ''a''] sample_world = (Inr 1, sample_world)"
proof -
  have h1: "coerce_list sample_lib (PyList []) = Inr (NdArray [])"
    by (simp add: coerce_list_def sample_lib_def)
  have h2: "py_len (NdArray []) = 0"
    by (simp add: py_len_def)
  from C7_empty_x_returns_surface_unchanged [OF h1 h2, of y_col z_grid True True False True None
         None 0 "[''label'' \<mapsto> PStr ''a'']" sample_world] h1 h2
  show ?thesis
    by (simp add: sample_lib_def)
qed

subsection \<open>Axis labels\<close>



subsection \<open>The returned surface\<close>

text \<open>
  C9. The claim: every call returns a surface, the one passed as \<^verbatim>\<open>ax\<close> or
  the current one when \<^verbatim>\<open>ax\<close> is \<^verbatim>\<open>None\<close>. The call
  \<^verbatim>\<open>contour_plot(x, y, z, shade=False)\<close> with every other option at its
  default returns nothing, with \<^verbatim>\<open>ax\<close> given as with \<^verbatim>\<open>ax=None\<close>: the helper
  asks for \<^verbatim>\<open>dark_palette\<close>, a name the module never binds, and the
  \<open>NameError\<close> leaves \<^verbatim>\<open>contour_plot\<close> before line 129 is reached.
\<close>

theorem C9_default_call_returns_no_surface:
  "fst (contour_plot sample_lib x_list y_col z_grid False True True False None None (Some 0)
          Map.empty sample_world) = Inl (NameError ''dark_palette'')
   \<and> fst (contour_plot sample_lib x_list y_col z_grid False True True False None None None
          Map.empty sample_world) = Inl (NameError ''dark_palette'')"
  by (simp add: run_defs fixture_defs)

text \<open>
  What the code does whenever \<^verbatim>\<open>contour_plot\<close> returns, on the short path for
  empty \<^verbatim>\<open>x\<close> as on the path through the helper: the value returned is the
  reference that was passed as \<^verbatim>\<open>ax\<close>, or the surface \<^verbatim>\<open>plt.gca()\<close> gave when
  \<^verbatim>\<open>ax\<close> was \<^verbatim>\<open>None\<close>.
\<close>

lemma contour_plot_returns_target_surface:
  assumes "fst (contour_plot c x y z shade legend shade_lowest cbar cbar_ax cbar_kws ax kw w)
             = Inr r"
  shows "r = (case ax of Some a \<Rightarrow> a | None \<Rightarrow> fst (gca c w))"
proof -
  let ?ax1 = "case ax of Some a \<Rightarrow> a | None \<Rightarrow> fst (gca c w)"
  let ?w1 = "case ax of Some a \<Rightarrow> w | None \<Rightarrow> snd (gca c w)"
  have target: "(case ax of None \<Rightarrow> gca c w | Some r \<Rightarrow> (r, w)) = (?ax1, ?w1)"
    by (cases ax) simp_all
  from assms show ?thesis
    unfolding contour_plot_def target
    by (auto simp: Let_def split: sum.splits if_splits dest: priv_returns_ax)
qed

text \<open>Two calls that do return: an explicit colormap object, and an empty \<^verbatim>\<open>x\<close>.\<close>

lemma contour_plot_returns_target_surface_example:
  "fst (contour_plot sample_lib x_list y_col z_grid True True True False None None (Some 0)
          [''cmap'' \<mapsto> PObj 7] sample_world) = Inr 0
   \<and> 0 = (case Some 0 of Some a \<Rightarrow> a | None \<Rightarrow> fst (gca sample_lib sample_world))
   \<and> fst (contour_plot sample_lib (PyList []) y_col z_grid True True True False None None None
          [''cmap'' \<mapsto> PObj 7] sample_world) = Inr 1
   \<and> 1 = (case None of Some a \<Rightarrow> a | None \<Rightarrow> fst (gca sample_lib sample_world))"
proof -
  have h1: "fst (contour_plot sample_lib x_list y_col z_grid True True True False None None
          (Some 0) [''cmap'' \<mapsto> PObj 7] sample_world) = Inr 0"
    by (simp add: run_defs fixture_defs)
  have h2: "fst (contour_plot sample_lib (PyList []) y_col z_grid True True True False None None
          None [''cmap'' \<mapsto> PObj 7] sample_world) = Inr 1"
    by (simp add: run_defs fixture_defs)
  from contour_plot_returns_target_surface [OF h1] contour_plot_returns_target_surface [OF h2]
    h1 h2
  show ?thesis
    by simp
qed

subsection \<open>Discrete colours together with a label\<close>

text \<open>
  C10. With an explicit \<^verbatim>\<open>colors\<close> value and a \<^verbatim>\<open>label\<close>, once the primitive has
  drawn, the helper fails: the branch taken binds neither \<^verbatim>\<open>color\<close> nor
  \<^verbatim>\<open>cmap\<close>, and line 181 reads \<^verbatim>\<open>color\<close>. At that moment the contour set is
  on the surface and no artist has been added.
\<close>

theorem C10_colors_with_label_unbound_color:
  assumes cols: "kw ''colors'' = Some cols" "cols \<noteq> PNone"
    and lab: "kw ''label'' = Some lab" "lab \<noteq> PNone"
    and prim: "(if filled then contourf c else contour c) x y z
                 (fst (dict_pop kw ''n_levels'' (PInt 10)))
                 (kw(''n_levels'' := None, ''colors'' \<mapsto> cols, ''label'' := None)) = Inr bands"
    and nonempty: "\<not> (filled \<and> \<not> fill_lowest \<and> bands = [])"
  shows "resolve_colors c filled (fst (probe_color (store w ax)))
           (snd (dict_pop kw ''n_levels'' (PInt 10)))
           = Inr ((kw(''n_levels'' := None))(''colors'' \<mapsto> cols), None, None)
     \<and> fst (priv_contour_plot c x y z filled fill_lowest axlabel cbar cbar_ax cbar_kws ax kw w)
           = Inl (UnboundLocalError ''color'')
     \<and> map cs_kwargs (csets (store (snd (priv_contour_plot c x y z filled fill_lowest axlabel
            cbar cbar_ax cbar_kws ax kw w)) ax))
         = map cs_kwargs (csets (store w ax)) @
             [kw(''n_levels'' := None, ''colors'' \<mapsto> cols, ''label'' := None)]
     \<and> artists (store (snd (priv_contour_plot c x y z filled fill_lowest axlabel
            cbar cbar_ax cbar_kws ax kw w)) ax) = artists (store w ax)"
proof -
  let ?kw2 = "(kw(''n_levels'' := None))(''colors'' \<mapsto> cols)"
  have res: "resolve_colors c filled (fst (probe_color (store w ax)))
               (snd (dict_pop kw ''n_levels'' (PInt 10))) = Inr (?kw2, None, None)"
    using cols by (simp add: dict_pop_eq resolve_colors_discrete)
  have prim': "(if filled then contourf c else contour c) x y z
                 (fst (dict_pop kw ''n_levels'' (PInt 10)))
                 (snd (dict_pop ?kw2 ''label'' PNone)) = Inr bands"
    using prim by (simp add: dict_pop_eq)
  have lab': "fst (dict_pop ?kw2 ''label'' PNone) = lab"
    using lab by (simp add: dict_pop_eq)
  note d = draw_contours_ok [OF prim' nonempty, where a = "snd (probe_color (store w ax))"]
  show ?thesis
    using priv_after_draw [OF res d] lab res
    by (simp add: lab' legend_proxy_def legend_color_def label_axes_frame probe_color_eq
          dict_pop_eq)
qed

theorem C10_colors_with_label_witness:
  "[''colors'' \<mapsto> PList [PStr ''k''], ''label'' \<mapsto> PStr ''a''] ''colors''
     = Some (PList [PStr ''k''])
   \<and> PList [PStr ''k''] \<noteq> PNone
   \<and> [''colors'' \<mapsto> PList [PStr ''k''], ''label'' \<mapsto> PStr ''a''] ''label'' = Some (PStr ''a'')
   \<and> PStr ''a'' \<noteq> PNone
   \<and> (if True then contourf sample_lib else contour sample_lib) x_arr y_col z_grid
       (fst (dict_pop [''colors'' \<mapsto> PList [PStr ''k''], ''label'' \<mapsto> PStr ''a'']
               ''n_levels'' (PInt 10)))
       ([''colors'' \<mapsto> PList [PStr ''k''], ''label'' \<mapsto> PStr ''a'']
          (''n_levels'' := None, ''colors'' \<mapsto> PList [PStr ''k''], ''label'' := None))
       = Inr [None, Some (1/2), None]
   \<and> \<not> (True \<and> \<not> False \<and> [None, Some (1/2), None :: real option] = [])
   \<and> fst (priv_contour_plot sample_lib x_arr y_col z_grid True False True False None None 0
          [''colors'' \<mapsto> PList [PStr ''k''], ''label'' \<mapsto> PStr ''a''] sample_world)
       = Inl (UnboundLocalError ''color'')
   \<and> length (csets (store (snd (priv_contour_plot sample_lib x_arr y_col z_grid True False True
          False None None 0 [''colors'' \<mapsto> PList [PStr ''k''], ''label'' \<mapsto> PStr ''a'']
          sample_world)) 0)) = 1
   \<and> artists (store (snd (priv_contour_plot sample_lib x_arr y_col z_grid True False True
          False None None 0 [''colors'' \<mapsto> PList [PStr ''k''], ''label'' \<mapsto> PStr ''a'']
          sample_world)) 0) = []"
proof -
  let ?kw = "[''colors'' \<mapsto> PList [PStr ''k''], ''label'' \<mapsto> PStr ''a'']"
  let ?w' = "snd (priv_contour_plot sample_lib x_arr y_col z_grid True False True
          False None None 0 ?kw sample_world)"
  have h1: "?kw ''colors'' = Some (PList [PStr ''k''])" by simp
  have h2: "PList [PStr ''k''] \<noteq> PNone" by simp
  have h3: "?kw ''label'' = Some (PStr ''a'')" by simp
  have h4: "PStr ''a'' \<noteq> PNone" by simp
  have h5: "(if True then contourf sample_lib else contour sample_lib) x_arr y_col z_grid
       (fst (dict_pop ?kw ''n_levels'' (PInt 10)))
       (?kw(''n_levels'' := None, ''colors'' \<mapsto> PList [PStr ''k''], ''label'' := None))
       = Inr [None, Some (1/2), None]"
    by (simp add: sample_lib_def)
  have h6: "\<not> (True \<and> \<not> False \<and> [None, Some (1/2), None :: real option] = [])"
    by simp
  note t = C10_colors_with_label_unbound_color [OF h1 h2 h3 h4 h5 h6, where w = sample_world
             and ax = 0 and axlabel = True and cbar = False and cbar_ax = None
             and cbar_kws = None]
  from t have a: "fst (priv_contour_plot sample_lib x_arr y_col z_grid True False True False
          None None 0 ?kw sample_world) = Inl (UnboundLocalError ''color'')"
    by blast
  from t have "map cs_kwargs (csets (store ?w' 0))
         = map cs_kwargs (csets (store sample_world 0)) @
             [?kw(''n_levels'' := None, ''colors'' \<mapsto> PList [PStr ''k''], ''label'' := None)]"
    by blast
  then have "length (map cs_kwargs (csets (store ?w' 0))) = 1"
    by (simp add: sample_world_def blank_axes_def)
  then have b: "length (csets (store ?w' 0)) = 1"
    by simp
  from t have "artists (store ?w' 0) = artists (store sample_world 0)"
    by blast
  then have c: "artists (store ?w' 0) = []"
    by (simp add: sample_world_def blank_axes_def)
  from h1 h2 h3 h4 h5 h6 a b c show ?thesis
    by blast
qed

end
